theory Spec2Isabelle
  imports Main "HOL-Library.Sublist" "HOL-Library.Word" "HOL-Library.AList"
begin

section \<open>Go strings and the library functions the gateway calls\<close>

text \<open>
  A Go \<open>string\<close> and a Go \<open>[]byte\<close> are both sequences of bytes; an Isabelle \<open>char\<close> is
  one byte, so both are modelled as \<open>char list\<close>. A Go \<open>error\<close> is modelled by its message.
\<close>

type_synonym bytes = string
type_synonym error = string

text \<open>
  \<open>strings.HasPrefix(s, prefix)\<close> is
  \<open>len(s) >= len(prefix) && s[:len(prefix)] == prefix\<close>.
\<close>

definition HasPrefix :: "string \<Rightarrow> string \<Rightarrow> bool" where
  "HasPrefix s p = (length p \<le> length s \<and> take (length p) s = p)"

section \<open>internal/instance/config.go: the configuration model\<close>

text \<open>
  The records keep the fields of the Go structs that the modelled functions read.
  Descriptive and provider-location fields (\<open>Description\<close>, \<open>Region\<close>, \<open>Endpoint\<close>,
  \<open>BaseURL\<close>, \<open>ProjectID\<close>, \<open>Location\<close>, \<open>APIVersion\<close>, \<open>CompartmentID\<close>), the
  \<open>Authentication\<close> block and the \<open>Global\<close> and \<open>Routing\<close> sections are read by none of
  them and are left out. A Go map is carried as
  an association list in the order in which a \<open>range\<close> statement visits its entries; Go
  leaves that order unspecified, so every theorem below is stated for an arbitrary list.
\<close>

record EndpointConfig =
  Path :: string
  Methods :: "string list"

record MetricsConfig =
  Enabled :: bool
  Labels :: "(string \<times> string) list"

record TransformationConfig =
  RequestFrom :: string
  RequestTo :: string
  ResponseFrom :: string
  ResponseTo :: string

record InstanceConfig =
  Type :: string
  Mode :: string
  Protocol :: string
  Transformation :: "TransformationConfig option"
  Endpoints :: "EndpointConfig list"
  Metrics :: MetricsConfig

record FeatureConfig =
  FeatureEnabled :: bool
  FeatureDescription :: string

record Config =
  Instances :: "(string \<times> InstanceConfig) list"
  Features :: "(string \<times> FeatureConfig) list"

subsection \<open>GetInstanceByPath\<close>

text \<open>
  The inner loop of \<open>GetInstanceByPath\<close>: does some endpoint of the instance, in
  declaration order, have a path that is a prefix of the request path?
\<close>

fun endpoint_matches :: "string \<Rightarrow> EndpointConfig list \<Rightarrow> bool" where
  "endpoint_matches path [] = False"
| "endpoint_matches path (endpoint # rest) =
     (if HasPrefix path (Path endpoint) then True else endpoint_matches path rest)"

text \<open>
  The outer loop ranges over the instance map and returns at the first instance whose
  inner loop finds a match; after the loop the function returns the error.
\<close>

fun instance_by_path :: "(string \<times> InstanceConfig) list \<Rightarrow> string \<Rightarrow> error + (InstanceConfig \<times> string)" where
  "instance_by_path [] path = Inl (''no instance found for path: '' @ path)"
| "instance_by_path ((name, inst) # rest) path =
     (if endpoint_matches path (Endpoints inst) then Inr (inst, name)
      else instance_by_path rest path)"

definition GetInstanceByPath :: "Config \<Rightarrow> string \<Rightarrow> error + (InstanceConfig \<times> string)" where
  "GetInstanceByPath c path = instance_by_path (Instances c) path"

text \<open>
  The notions the registry's description uses. A configured prefix matches a path when it
  is a prefix of it; an instance owns the longest matching prefix when one of its matching
  endpoint paths is at least as long as every matching endpoint path of the configuration.
\<close>

definition matching_prefixes :: "Config \<Rightarrow> string \<Rightarrow> string list" where
  "matching_prefixes c path =
     concat (map (\<lambda>(name, inst). filter (\<lambda>p. prefix p path) (map Path (Endpoints inst))) (Instances c))"

definition owns_matching_prefix :: "InstanceConfig \<Rightarrow> string \<Rightarrow> bool" where
  "owns_matching_prefix inst path = (\<exists>e \<in> set (Endpoints inst). prefix (Path e) path)"

definition owns_longest_prefix :: "Config \<Rightarrow> InstanceConfig \<Rightarrow> string \<Rightarrow> bool" where
  "owns_longest_prefix c inst path =
     (\<exists>e \<in> set (Endpoints inst). prefix (Path e) path \<and>
        (\<forall>p \<in> set (matching_prefixes c path). length p \<le> length (Path e)))"


subsection \<open>LoadConfig and the expansion of environment references\<close>

text \<open>
  \<open>LoadConfig\<close> calls \<open>os.ExpandEnv\<close>, which is \<open>os.Expand(s, os.Getenv)\<close> of the Go
  standard library. \<open>getShellName\<close> receives the text after a dollar sign and returns
  the name it reads there and the number of bytes it consumes: a special one-byte
  variable in braces, anything up to the closing brace, a special one-byte variable, or
  the longest run of letters, digits and underscores.
\<close>

definition isShellSpecialVar :: "char \<Rightarrow> bool" where
  "isShellSpecialVar c = (c \<in> set ''*#$@!?-0123456789'')"

definition isAlphaNum :: "char \<Rightarrow> bool" where
  "isAlphaNum c =
     (c \<in> set ''_0123456789abcdefghijklmnopqrstuvwxyzABCDEFGHIJKLMNOPQRSTUVWXYZ'')"

definition getShellName :: "string \<Rightarrow> string \<times> nat" where
  "getShellName s =
     (case s of
        [] \<Rightarrow> ([], 0)
      | c # t \<Rightarrow>
          if c = CHR ''{'' then
            (if 2 < length s \<and> isShellSpecialVar (s ! 1) \<and> s ! 2 = CHR ''}'' then ([s ! 1], 3)
             else
               (let k = length (takeWhile (\<lambda>x. x \<noteq> CHR ''}'') t) in
                if k = length t then ([], 1)
                else if k = 0 then ([], 2)
                else (take k t, k + 2)))
          else if isShellSpecialVar c then ([c], 1)
          else (takeWhile isAlphaNum s, length (takeWhile isAlphaNum s)))"

text \<open>
  \<open>os.Expand\<close> copies the text and, at each dollar sign that is not the last byte, reads
  a name: bad syntax (no name, bytes consumed) is dropped, a dollar sign followed by no
  name is kept, and a name is replaced by the mapping's value for it. The scan resumes
  after the consumed bytes.
\<close>

fun Expand :: "(string \<Rightarrow> string) \<Rightarrow> string \<Rightarrow> string" where
  "Expand mapping [] = []"
| "Expand mapping (c # rest) =
     (if c = CHR ''$'' \<and> rest \<noteq> [] then
        (if fst (getShellName rest) = [] \<and> 0 < snd (getShellName rest) then []
         else if fst (getShellName rest) = [] then [c]
         else mapping (fst (getShellName rest)))
        @ Expand mapping (drop (snd (getShellName rest)) rest)
      else c # Expand mapping rest)"

text \<open>
  The process environment maps names to values; \<open>os.Getenv\<close> returns the empty string
  for a name that is not set.
\<close>

definition Getenv :: "(string \<rightharpoonup> string) \<Rightarrow> string \<Rightarrow> string" where
  "Getenv env name = (case env name of None \<Rightarrow> [] | Some v \<Rightarrow> v)"

definition ExpandEnv :: "(string \<rightharpoonup> string) \<Rightarrow> string \<Rightarrow> string" where
  "ExpandEnv env s = Expand (Getenv env) s"

text \<open>
  \<open>LoadConfig\<close> reads the file, expands the text and hands it to \<open>yaml.Unmarshal\<close>. The
  file system and the YAML decoder are outside the repository and are parameters: the
  reader maps a path to the file's bytes or an error, the decoder maps a text to the
  decoded configuration or an error.
\<close>

definition LoadConfig ::
  "(string \<Rightarrow> error + bytes) \<Rightarrow> (string \<rightharpoonup> string) \<Rightarrow> (bytes \<Rightarrow> error + Config) \<Rightarrow> string \<Rightarrow> error + Config" where
  "LoadConfig readFile env unmarshal path =
     (case readFile path of
        Inl err \<Rightarrow> Inl (''failed to read config file: '' @ err)
      | Inr data \<Rightarrow>
          (case unmarshal (ExpandEnv env data) of
             Inl err \<Rightarrow> Inl (''failed to parse config: '' @ err)
           | Inr config \<Rightarrow> Inr config))"

text \<open>
  The instance invariants as the data model words them, for comparison with what
  \<open>LoadConfig\<close> accepts: a protocol instance has a translation pair with no empty
  member, a transparent instance has none, the provider kind is one of the seven known
  kinds, the mode is one of the two modes, and no path prefix is declared twice. The
  invariant on the strategy list has no counterpart: \<open>InstanceConfig\<close> has no such list.
\<close>

definition known_provider_kinds :: "string list" where
  "known_provider_kinds =
     [''bedrock'', ''azure'', ''openai'', ''anthropic'', ''vertex'', ''ibm'', ''oracle'']"

definition translation_pair_nonempty :: "TransformationConfig option \<Rightarrow> bool" where
  "translation_pair_nonempty t =
     (case t of
        None \<Rightarrow> False
      | Some tr \<Rightarrow> RequestFrom tr \<noteq> [] \<and> RequestTo tr \<noteq> [] \<and> ResponseFrom tr \<noteq> [] \<and> ResponseTo tr \<noteq> [])"

definition spec_instance_invariants :: "InstanceConfig \<Rightarrow> bool" where
  "spec_instance_invariants inst =
     ((Mode inst = ''protocol'' \<or> Mode inst = ''transparent'') \<and>
      (Mode inst = ''protocol'' \<longrightarrow> translation_pair_nonempty (Transformation inst)) \<and>
      (Mode inst = ''transparent'' \<longrightarrow> Transformation inst = None) \<and>
      Type inst \<in> set known_provider_kinds)"

definition spec_invariants :: "Config \<Rightarrow> bool" where
  "spec_invariants c =
     (list_all (\<lambda>(name, inst). spec_instance_invariants inst) (Instances c) \<and>
      distinct (concat (map (\<lambda>(name, inst). map Path (Endpoints inst)) (Instances c))))"

section \<open>The provider interface and HTTP values\<close>

text \<open>
  The types of package \<open>providers\<close> with the fields the handlers read and write. The
  request context is left out. \<open>Invoke\<close> returns a response or an error; an error is a
  \<open>*ProviderError\<close> (status code, message, code) or any other error. A provider is its
  \<open>Invoke\<close> method, and the registry maps a provider kind to a provider.
\<close>

record ProviderRequest =
  ReqMethod :: string
  ReqPath :: string
  ReqHeaders :: "(string \<times> string) list"
  ReqBody :: bytes
  ReqQueryParams :: "(string \<times> string) list"

record ProviderResponse =
  StatusCode :: int
  RespHeaders :: "(string \<times> string) list"
  RespBody :: bytes

datatype invoke_error = ProviderError int string string | OtherError string

type_synonym Provider = "ProviderRequest \<Rightarrow> invoke_error + ProviderResponse"

text \<open>
  What a handler reads from the \<open>gin.Context\<close>: the method, the URL path, the header map
  and the parsed query (both map a key to its list of values) and the result of reading
  the body.
\<close>

record HTTPRequest =
  Method :: string
  URLPath :: string
  Header :: "(string \<times> string list) list"
  Query :: "(string \<times> string list) list"
  RawData :: "error + bytes"

text \<open>
  The canonical chat request and response of package \<open>translator\<close>: the handlers read
  the request's model and write the response's id and creation time; the other members
  travel in one opaque field.
\<close>

record ChatCompletionRequest =
  ReqModel :: string
  ReqRest :: string

record ChatCompletionResponse =
  ID :: string
  Created :: int
  Model :: string
  Rest :: string

record ErrorDetail =
  Message :: string
  ErrType :: string
  Code :: string

text \<open>
  What a handler hands to the response writer: the status, the calls of \<open>c.Header\<close>
  made before, and the body, which is the value given to \<open>c.JSON\<close> (an
  \<open>ErrorResponse\<close>, a \<open>gin.H\<close> object or a chat response), the content type and bytes
  given to \<open>c.Data\<close>, or nothing when the status allows no body. A handler either
  replies or panics, and the outcome also lists the requests it handed to the provider.
\<close>

datatype body =
    JSONError ErrorDetail
  | JSONObject "(string \<times> string) list"
  | JSONChat ChatCompletionResponse
  | Data string bytes
  | NoBody

record Reply =
  Status :: int
  HeaderCalls :: "(string \<times> string) list"
  Body :: body

datatype handler_result = Replied Reply | Panicked

record Outcome =
  result :: handler_result
  invoked :: "ProviderRequest list"

text \<open>
  \<open>c.JSON\<close> and \<open>c.Data\<close> both end in gin's \<open>Context.Render\<close>. It records the status in
  the writer, where a code that is not positive leaves the writer's initial 200. When
  \<open>bodyAllowedForStatus\<close> rejects the code (1xx, 204, 304) it writes the header without
  a body, otherwise it writes the body. Writing the header with a status below 100 or
  above 999 panics in \<open>WriteHeader\<close> of \<open>net/http\<close>.
\<close>

definition bodyAllowedForStatus :: "int \<Rightarrow> bool" where
  "bodyAllowedForStatus status =
     (\<not> (100 \<le> status \<and> status \<le> 199) \<and> status \<noteq> 204 \<and> status \<noteq> 304)"

definition Render :: "int \<Rightarrow> (string \<times> string) list \<Rightarrow> body \<Rightarrow> handler_result" where
  "Render code headerCalls b =
     (let status = (if 0 < code then code else 200) in
      if status < 100 \<or> 999 < status then Panicked
      else if \<not> bodyAllowedForStatus code then
        Replied \<lparr>Status = status, HeaderCalls = headerCalls, Body = NoBody\<rparr>
      else Replied \<lparr>Status = status, HeaderCalls = headerCalls, Body = b\<rparr>)"

definition reply_json :: "int \<Rightarrow> body \<Rightarrow> handler_result" where
  "reply_json code b = Render code [] b"

definition error_response :: "string \<Rightarrow> string \<Rightarrow> string \<Rightarrow> body" where
  "error_response m t c = JSONError \<lparr>Message = m, ErrType = t, Code = c\<rparr>"

definition no_call :: "handler_result \<Rightarrow> Outcome" where
  "no_call res = \<lparr>result = res, invoked = []\<rparr>"

section \<open>internal/handlers/transparent_handler.go\<close>

text \<open>
  \<open>extractProviderPath\<close> strips the first endpoint path, in declaration order, that the
  request path strictly extends.
\<close>

fun extractProviderPath :: "string \<Rightarrow> EndpointConfig list \<Rightarrow> string" where
  "extractProviderPath fullPath [] = fullPath"
| "extractProviderPath fullPath (endpoint # rest) =
     (if length (Path endpoint) < length fullPath \<and>
         take (length (Path endpoint)) fullPath = Path endpoint
      then drop (length (Path endpoint)) fullPath
      else extractProviderPath fullPath rest)"

definition authHeaders :: "string list" where
  "authHeaders = [''Authorization'', ''X-API-Key'', ''x-api-key'', ''api-key'', ''X-Auth-Token'']"

fun string_among :: "string \<Rightarrow> string list \<Rightarrow> bool" where
  "string_among headerName [] = False"
| "string_among headerName (authHeader # rest) =
     (if headerName = authHeader then True else string_among headerName rest)"

definition isAuthHeader :: "string \<Rightarrow> bool" where
  "isAuthHeader headerName = string_among headerName authHeaders"

definition getContentType :: "(string \<times> string) list \<Rightarrow> string" where
  "getContentType headers =
     (case map_of headers ''Content-Type'' of
        Some ct \<Rightarrow> ct
      | None \<Rightarrow>
          (case map_of headers ''content-type'' of
             Some ct \<Rightarrow> ct
           | None \<Rightarrow> ''application/json''))"

text \<open>
  \<open>textproto.CanonicalMIMEHeaderKey\<close> of the Go standard library: a key made of header
  token bytes gets an upper-case letter at the start and after each hyphen and
  lower-case letters elsewhere; any other key is returned as it is. The HTTP server
  stores every request header under its canonical key, and \<open>Header.Get\<close> canonicalises
  the key it looks up and returns the first value, or the empty string.
\<close>

definition validHeaderFieldByte :: "char \<Rightarrow> bool" where
  "validHeaderFieldByte c =
     (c \<in> set (''!#$%&*+-.^_`|~0123456789abcdefghijklmnopqrstuvwxyzABCDEFGHIJKLMNOPQRSTUVWXYZ''
               @ [CHR 0x27]))"

definition lower_letters :: string where
  "lower_letters = ''abcdefghijklmnopqrstuvwxyz''"

definition upper_letters :: string where
  "upper_letters = ''ABCDEFGHIJKLMNOPQRSTUVWXYZ''"

definition to_upper :: "char \<Rightarrow> char" where
  "to_upper c = (case map_of (zip lower_letters upper_letters) c of Some u \<Rightarrow> u | None \<Rightarrow> c)"

definition to_lower :: "char \<Rightarrow> char" where
  "to_lower c = (case map_of (zip upper_letters lower_letters) c of Some l \<Rightarrow> l | None \<Rightarrow> c)"

fun canonical_bytes :: "bool \<Rightarrow> string \<Rightarrow> string" where
  "canonical_bytes upper [] = []"
| "canonical_bytes upper (c # cs) =
     (let c' = (if upper then to_upper c else to_lower c)
      in c' # canonical_bytes (c' = CHR ''-'') cs)"

definition CanonicalMIMEHeaderKey :: "string \<Rightarrow> string" where
  "CanonicalMIMEHeaderKey s = (if list_all validHeaderFieldByte s then canonical_bytes True s else s)"

definition first_value :: "string list option \<Rightarrow> string" where
  "first_value vs = (case vs of None \<Rightarrow> [] | Some [] \<Rightarrow> [] | Some (v # _) \<Rightarrow> v)"

definition Header_Get :: "(string \<times> string list) list \<Rightarrow> string \<Rightarrow> string" where
  "Header_Get h key = first_value (map_of h (CanonicalMIMEHeaderKey key))"

definition Values_Get :: "(string \<times> string list) list \<Rightarrow> string \<Rightarrow> string" where
  "Values_Get v key = first_value (map_of v key)"

text \<open>
  The two copy loops of \<open>HandleRequest\<close>. Each ranges over the keys of the caller's map
  and assigns into the provider request's map; the header loop skips the keys that
  \<open>isAuthHeader\<close> accepts.
\<close>

fun copy_headers ::
  "(string \<times> string list) list \<Rightarrow> (string \<times> string list) list \<Rightarrow> (string \<times> string) list \<Rightarrow> (string \<times> string) list" where
  "copy_headers h [] headers = headers"
| "copy_headers h ((key, vs) # rest) headers =
     copy_headers h rest
       (if \<not> isAuthHeader key then AList.update key (Header_Get h key) headers else headers)"

fun copy_query ::
  "(string \<times> string list) list \<Rightarrow> (string \<times> string list) list \<Rightarrow> (string \<times> string) list \<Rightarrow> (string \<times> string) list" where
  "copy_query q [] params = params"
| "copy_query q ((key, vs) # rest) params =
     copy_query q rest (AList.update key (Values_Get q key) params)"

definition transparent_provider_request :: "InstanceConfig \<Rightarrow> HTTPRequest \<Rightarrow> bytes \<Rightarrow> ProviderRequest" where
  "transparent_provider_request instanceCfg r body =
     \<lparr>ReqMethod = Method r,
      ReqPath = extractProviderPath (URLPath r) (Endpoints instanceCfg),
      ReqHeaders = copy_headers (Header r) (Header r) [],
      ReqBody = body,
      ReqQueryParams = copy_query (Query r) (Query r) []\<rparr>"

text \<open>
  \<open>TransparentHandler.HandleRequest\<close>. The metrics sink is outside the repository's
  sources and does not touch the reply, so the recording of metrics is left out. The
  status of a provider error and of a provider response goes to the writer as it is.
\<close>

definition TransparentHandler_HandleRequest ::
  "(string \<rightharpoonup> Provider) \<Rightarrow> Config \<Rightarrow> HTTPRequest \<Rightarrow> Outcome" where
  "TransparentHandler_HandleRequest providers config r =
     (case GetInstanceByPath config (URLPath r) of
        Inl err \<Rightarrow>
          no_call (reply_json 404
            (JSONObject [(''error'', ''No provider instance configured for this path'')]))
      | Inr (instanceCfg, instanceName) \<Rightarrow>
          if Mode instanceCfg \<noteq> ''transparent'' then
            no_call (reply_json 400
              (JSONObject [(''error'', ''This endpoint requires transparent mode'')]))
          else
            (case providers (Type instanceCfg) of
               None \<Rightarrow>
                 no_call (reply_json 503
                   (JSONObject [(''error'', ''Provider '' @ Type instanceCfg @ '' not available'')]))
             | Some provider \<Rightarrow>
                 (case RawData r of
                    Inl err \<Rightarrow>
                      no_call (reply_json 400
                        (JSONObject [(''error'', ''Failed to read request body'')]))
                  | Inr body \<Rightarrow>
                      (let providerReq = transparent_provider_request instanceCfg r body in
                       case provider providerReq of
                         Inl (ProviderError statusCode message code) \<Rightarrow>
                           \<lparr>result = Render statusCode [] (Data ''application/json'' message),
                            invoked = [providerReq]\<rparr>
                       | Inl (OtherError e) \<Rightarrow>
                           \<lparr>result = reply_json 500
                              (JSONObject [(''error'', ''Provider request failed'')]),
                            invoked = [providerReq]\<rparr>
                       | Inr providerResp \<Rightarrow>
                           \<lparr>result = Render (StatusCode providerResp) (RespHeaders providerResp)
                              (Data (getContentType (RespHeaders providerResp))
                                 (RespBody providerResp)),
                            invoked = [providerReq]\<rparr>))))"

section \<open>internal/handlers/protocol_handler.go\<close>

text \<open>
  The request id is \<open>fmt.Sprintf("chatcmpl-%s", uuid.New().String()[:8])\<close>. A UUID is
  sixteen bytes from the random source; \<open>String\<close> writes them in lower-case hexadecimal
  (\<open>hex.Encode\<close>: the high nibble, then the low nibble of each byte) in groups of four,
  two, two, two and six bytes separated by hyphens.
\<close>

definition hextable :: string where
  "hextable = ''0123456789abcdef''"

fun hex_Encode :: "8 word list \<Rightarrow> string" where
  "hex_Encode [] = []"
| "hex_Encode (v # rest) =
     hextable ! unat (drop_bit 4 v) # hextable ! unat (and v 0x0f) # hex_Encode rest"

definition UUID_String :: "8 word list \<Rightarrow> string" where
  "UUID_String uuid =
     hex_Encode (take 4 uuid) @ ''-'' @ hex_Encode (take 2 (drop 4 uuid)) @ ''-'' @
     hex_Encode (take 2 (drop 6 uuid)) @ ''-'' @ hex_Encode (take 2 (drop 8 uuid)) @ ''-'' @
     hex_Encode (drop 10 uuid)"

definition new_request_id :: "8 word list \<Rightarrow> string" where
  "new_request_id uuid = ''chatcmpl-'' @ take 8 (UUID_String uuid)"

text \<open>
  The shape \<open>^chatcmpl-[0-9a-f]{8}$\<close>: the nine bytes \<open>chatcmpl-\<close>, then exactly eight
  lower-case hexadecimal digits.
\<close>

definition is_lower_hex :: "char \<Rightarrow> bool" where
  "is_lower_hex c = (c \<in> set ''0123456789abcdef'')"

definition matches_chatcmpl_id :: "string \<Rightarrow> bool" where
  "matches_chatcmpl_id s =
     (length s = 17 \<and> take 9 s = ''chatcmpl-'' \<and> list_all is_lower_hex (drop 9 s))"

text \<open>
  The functions of packages \<open>translator\<close>, \<open>encoding/json\<close> and \<open>gin\<close> that the protocol
  handler calls are parameters, gathered in one record. Decoding into a nil pointer
  (\<open>json.Unmarshal(body, &openaiResp)\<close>) leaves the pointer nil on the JSON text
  \<open>null\<close>, so the decoders of a response return an optional value. \<open>'c\<close> is the type of
  a decoded Bedrock Converse response.
\<close>

record 'c Translator =
  ShouldBindJSON :: "HTTPRequest \<Rightarrow> error + ChatCompletionRequest"
  Marshal :: "ChatCompletionRequest \<Rightarrow> error + bytes"
  TranslateOpenAIToConverseAPI :: "ChatCompletionRequest \<Rightarrow> error + ProviderRequest"
  UnmarshalConverse :: "bytes \<Rightarrow> error + 'c"
  TranslateConverseToOpenAI :: "'c \<Rightarrow> string \<Rightarrow> string \<Rightarrow> ChatCompletionResponse option"
  UnmarshalChat :: "bytes \<Rightarrow> error + ChatCompletionResponse option"

text \<open>
  The three passthrough branches of \<open>handleOpenAIProtocol\<close> (no transformation,
  \<open>request_to\<close> equal to \<open>openai\<close>, any other \<open>request_to\<close>) have the same body.
\<close>

definition marshal_request ::
  "'c Translator \<Rightarrow> ChatCompletionRequest \<Rightarrow> handler_result + ProviderRequest" where
  "marshal_request t req =
     (case Marshal t req of
        Inl err \<Rightarrow>
          Inl (reply_json 500
            (error_response ''Failed to marshal request'' ''internal_error'' ''marshal_failed''))
      | Inr reqBody \<Rightarrow>
          Inr \<lparr>ReqMethod = ''POST'', ReqPath = ''/chat/completions'',
               ReqHeaders = [(''Content-Type'', ''application/json'')],
               ReqBody = reqBody, ReqQueryParams = []\<rparr>)"

definition build_provider_request ::
  "'c Translator \<Rightarrow> InstanceConfig \<Rightarrow> ChatCompletionRequest \<Rightarrow> handler_result + ProviderRequest" where
  "build_provider_request t instanceCfg req =
     (case Transformation instanceCfg of
        None \<Rightarrow> marshal_request t req
      | Some tr \<Rightarrow>
          if RequestTo tr = ''bedrock_converse'' then
            (case TranslateOpenAIToConverseAPI t req of
               Inl err \<Rightarrow>
                 Inl (reply_json 400
                   (error_response (''Failed to translate request: '' @ err)
                      ''invalid_request_error'' ''translation_failed''))
             | Inr providerReq \<Rightarrow> Inr providerReq)
          else if RequestTo tr = ''openai'' then marshal_request t req
          else marshal_request t req)"

definition response_parse_error :: handler_result where
  "response_parse_error =
     reply_json 500
       (error_response ''Failed to parse provider response'' ''internal_error'' ''response_parse_error'')"

definition parse_provider_response ::
  "'c Translator \<Rightarrow> InstanceConfig \<Rightarrow> ProviderResponse \<Rightarrow> string \<Rightarrow> string \<Rightarrow>
     handler_result + ChatCompletionResponse option" where
  "parse_provider_response t instanceCfg providerResp model requestID =
     (if (case Transformation instanceCfg of
            None \<Rightarrow> False
          | Some tr \<Rightarrow> ResponseFrom tr = ''bedrock_converse'')
      then
        (case UnmarshalConverse t (RespBody providerResp) of
           Inl err \<Rightarrow> Inl response_parse_error
         | Inr converseResp \<Rightarrow> Inr (TranslateConverseToOpenAI t converseResp model requestID))
      else
        (case UnmarshalChat t (RespBody providerResp) of
           Inl err \<Rightarrow> Inl response_parse_error
         | Inr openaiResp \<Rightarrow> Inr openaiResp))"

definition handleProviderError :: "invoke_error \<Rightarrow> handler_result" where
  "handleProviderError err =
     (case err of
        ProviderError statusCode message code \<Rightarrow>
          reply_json (if statusCode = 0 then 500 else statusCode)
            (error_response message ''provider_error'' code)
      | OtherError e \<Rightarrow>
          reply_json 500 (error_response ''Internal server error'' ''internal_error'' ''unknown_error''))"

text \<open>
  \<open>handleOpenAIProtocol\<close>. \<open>startTime\<close> is \<open>startTime.Unix()\<close>, the epoch seconds of the
  clock reading taken on entry to \<open>HandleRequest\<close>; \<open>uuid\<close> is the value \<open>uuid.New()\<close>
  returns. Writing the id through a nil response pointer panics.
\<close>

definition handleOpenAIProtocol ::
  "'c Translator \<Rightarrow> HTTPRequest \<Rightarrow> Provider \<Rightarrow> InstanceConfig \<Rightarrow> int \<Rightarrow> 8 word list \<Rightarrow> Outcome" where
  "handleOpenAIProtocol t r provider instanceCfg startTime uuid =
     (case ShouldBindJSON t r of
        Inl err \<Rightarrow>
          no_call (reply_json 400
            (error_response ''Invalid request body'' ''invalid_request_error'' ''invalid_json''))
      | Inr req \<Rightarrow>
          (let requestID = new_request_id uuid in
           case build_provider_request t instanceCfg req of
             Inl rep \<Rightarrow> no_call rep
           | Inr providerReq \<Rightarrow>
               (case provider providerReq of
                  Inl err \<Rightarrow>
                    \<lparr>result = handleProviderError err, invoked = [providerReq]\<rparr>
                | Inr providerResp \<Rightarrow>
                    (case parse_provider_response t instanceCfg providerResp (ReqModel req) requestID of
                       Inl rep \<Rightarrow> \<lparr>result = rep, invoked = [providerReq]\<rparr>
                     | Inr None \<Rightarrow> \<lparr>result = Panicked, invoked = [providerReq]\<rparr>
                     | Inr (Some openaiResp) \<Rightarrow>
                         \<lparr>result = reply_json 200
                            (JSONChat (openaiResp\<lparr>ID := requestID, Created := startTime\<rparr>)),
                          invoked = [providerReq]\<rparr>))))"

definition ProtocolHandler_HandleRequest ::
  "'c Translator \<Rightarrow> (string \<rightharpoonup> Provider) \<Rightarrow> Config \<Rightarrow> int \<Rightarrow> 8 word list \<Rightarrow> HTTPRequest \<Rightarrow> Outcome" where
  "ProtocolHandler_HandleRequest t providers config startTime uuid r =
     (case GetInstanceByPath config (URLPath r) of
        Inl err \<Rightarrow>
          no_call (reply_json 404
            (error_response ''No provider instance configured for this path''
               ''invalid_request_error'' ''instance_not_found''))
      | Inr (instanceCfg, instanceName) \<Rightarrow>
          if Mode instanceCfg \<noteq> ''protocol'' then
            no_call (reply_json 400
              (error_response ''This endpoint requires protocol mode''
                 ''invalid_request_error'' ''invalid_mode''))
          else
            (case providers (Type instanceCfg) of
               None \<Rightarrow>
                 no_call (reply_json 503
                   (error_response (''Provider '' @ Type instanceCfg @ '' not available'')
                      ''service_error'' ''provider_unavailable''))
             | Some provider \<Rightarrow>
                 if Protocol instanceCfg = ''openai'' then
                   handleOpenAIProtocol t r provider instanceCfg startTime uuid
                 else
                   no_call (reply_json 501
                     (error_response (''Protocol '' @ Protocol instanceCfg @ '' not yet implemented'')
                        ''not_implemented_error'' ''protocol_not_implemented''))))"

section \<open>Predicates of the claims and example values\<close>

text \<open>
  The endpoint that \<open>GetInstanceByPath\<close> matched inside the returned instance is the
  first one, in declaration order, whose path is a prefix of the request path.
\<close>

definition matched_endpoint :: "string \<Rightarrow> EndpointConfig list \<Rightarrow> EndpointConfig option" where
  "matched_endpoint path endpoints = find (\<lambda>e. HasPrefix path (Path e)) endpoints"

text \<open>
  A reply is the canonical error of a given type and code with a given status when its
  body is an \<open>ErrorResponse\<close> object with these members.
\<close>

definition canonical_error_reply :: "Outcome \<Rightarrow> int \<Rightarrow> string \<Rightarrow> string \<Rightarrow> bool" where
  "canonical_error_reply out code t c =
     (case result out of
        Panicked \<Rightarrow> False
      | Replied rep \<Rightarrow>
          Status rep = code \<and>
          (case Body rep of JSONError d \<Rightarrow> ErrType d = t \<and> Code d = c | _ \<Rightarrow> False))"

text \<open>Replacing the allowed-methods list of every endpoint of a configuration.\<close>

definition endpoint_with_methods :: "(string list \<Rightarrow> string list) \<Rightarrow> EndpointConfig \<Rightarrow> EndpointConfig" where
  "endpoint_with_methods f e = e\<lparr>Methods := f (Methods e)\<rparr>"

definition instance_with_methods :: "(string list \<Rightarrow> string list) \<Rightarrow> InstanceConfig \<Rightarrow> InstanceConfig" where
  "instance_with_methods f inst = inst\<lparr>Endpoints := map (endpoint_with_methods f) (Endpoints inst)\<rparr>"

definition with_methods :: "(string list \<Rightarrow> string list) \<Rightarrow> Config \<Rightarrow> Config" where
  "with_methods f c =
     c\<lparr>Instances := map (\<lambda>(name, inst). (name, instance_with_methods f inst)) (Instances c)\<rparr>"

text \<open>Example values for the concrete instances of the theorems.\<close>

definition example_instance :: "string \<Rightarrow> string \<Rightarrow> string \<Rightarrow> string list \<Rightarrow> InstanceConfig" where
  "example_instance kind mode proto paths =
     \<lparr>Type = kind, Mode = mode, Protocol = proto, Transformation = None,
      Endpoints = map (\<lambda>p. \<lparr>Path = p, Methods = [''POST'']\<rparr>) paths,
      Metrics = \<lparr>Enabled = False, Labels = []\<rparr>\<rparr>"

definition example_config :: "(string \<times> InstanceConfig) list \<Rightarrow> Config" where
  "example_config insts = \<lparr>Instances = insts, Features = []\<rparr>"

definition example_request :: "string \<Rightarrow> string \<Rightarrow> (string \<times> string list) list \<Rightarrow> HTTPRequest" where
  "example_request m p h = \<lparr>Method = m, URLPath = p, Header = h, Query = [], RawData = Inr ''{}''\<rparr>"

definition example_response :: ProviderResponse where
  "example_response =
     \<lparr>StatusCode = 200, RespHeaders = [(''Content-Type'', ''application/json'')],
      RespBody = ''{id:upstream-1}''\<rparr>"

definition example_provider :: Provider where
  "example_provider req = Inr example_response"

definition example_translator :: "string Translator" where
  "example_translator =
     \<lparr>ShouldBindJSON = (\<lambda>r. Inr \<lparr>ReqModel = ''claude-3-sonnet'', ReqRest = []\<rparr>),
      Marshal = (\<lambda>req. Inr ''{}''),
      TranslateOpenAIToConverseAPI = (\<lambda>req. Inl ''unsupported''),
      UnmarshalConverse = (\<lambda>b. Inr b),
      TranslateConverseToOpenAI = (\<lambda>c m i. Some \<lparr>ID = i, Created = 0, Model = m, Rest = c\<rparr>),
      UnmarshalChat = (\<lambda>b. Inr (Some \<lparr>ID = ''upstream-1'', Created = 7, Model = ''gpt'', Rest = b\<rparr>))\<rparr>"

definition example_uuid :: "8 word list" where
  "example_uuid = [0x3f, 0xa9, 0x00, 0xc4, 1, 2, 3, 4, 5, 6, 7, 8, 9, 10, 11, 12]"

definition nested_config :: Config where
  "nested_config =
     example_config
       [(''bedrock_all'', example_instance ''bedrock'' ''transparent'' [] [''/transparent/bedrock'']),
        (''bedrock_eu'', example_instance ''bedrock'' ''transparent'' [] [''/transparent/bedrock/eu''])]"

definition eu_first_config :: Config where
  "eu_first_config =
     example_config
       [(''bedrock_eu'', example_instance ''bedrock'' ''transparent'' []
           [''/transparent/bedrock/eu'', ''/transparent/bedrock''])]"


definition openai_transparent_config :: Config where
  "openai_transparent_config =
     example_config
       [(''openai_transparent'', example_instance ''openai'' ''transparent'' [] [''/transparent/openai''])]"

definition vertex_anthropic_config :: Config where
  "vertex_anthropic_config =
     example_config
       [(''vertex_anthropic'', example_instance ''vertex'' ''protocol'' ''anthropic'' [''/anthropic/vertex''])]"

definition openai_protocol_config :: Config where
  "openai_protocol_config =
     example_config
       [(''openai_openai'', example_instance ''openai'' ''protocol'' ''openai'' [''/openai/openai''])]"

text \<open>
  A stand-in for the YAML decoder on one text: it decodes the expected text to the given
  configuration and rejects every other text.
\<close>

definition accept_text :: "string \<Rightarrow> Config \<Rightarrow> bytes \<Rightarrow> error + Config" where
  "accept_text expected c s = (if s = expected then Inr c else Inl ''yaml: cannot decode'')"

text \<open>
  A configuration text and its decoding that break the invariants: instance \<open>a\<close> is
  in protocol mode without a translation pair and has an unknown provider kind,
  instance \<open>b\<close> is in transparent mode with a translation pair, and both declare the
  prefix \<open>/openai/a\<close>.
\<close>

definition violating_yaml :: string where
  "violating_yaml =
     ''instances: {a: {type: mainframe, mode: protocol, protocol: openai, '' @
     ''endpoints: [{path: /openai/a, methods: [POST]}]}, '' @
     ''b: {type: openai, mode: transparent, transformation: {request_from: openai, '' @
     ''request_to: openai, response_from: openai, response_to: openai}, '' @
     ''endpoints: [{path: /openai/a, methods: [POST]}]}}''"

definition violating_config :: Config where
  "violating_config =
     example_config
       [(''a'', example_instance ''mainframe'' ''protocol'' ''openai'' [''/openai/a'']),
        (''b'', (example_instance ''openai'' ''transparent'' [] [''/openai/a''])
                  \<lparr>Transformation := Some \<lparr>RequestFrom = ''openai'', RequestTo = ''openai'',
                                             ResponseFrom = ''openai'', ResponseTo = ''openai''\<rparr>\<rparr>)]"

section \<open>Path lookup\<close>

lemma HasPrefix_iff_prefix: "HasPrefix s p \<longleftrightarrow> prefix p s"
  unfolding HasPrefix_def
  by (metis append_eq_conv_conj prefix_def prefix_length_le take_is_prefix)

lemma endpoint_matches_iff: "endpoint_matches path es \<longleftrightarrow> (\<exists>e \<in> set es. prefix (Path e) path)"
  by (induction es) (auto simp: HasPrefix_iff_prefix)

lemma instance_by_path_find:
  "instance_by_path insts path =
     (case find (\<lambda>(name, inst). owns_matching_prefix inst path) insts of
        None \<Rightarrow> Inl (''no instance found for path: '' @ path)
      | Some (name, inst) \<Rightarrow> Inr (inst, name))"
  by (induction insts) (auto simp: endpoint_matches_iff owns_matching_prefix_def)

lemma longest_member:
  fixes f :: "'a \<Rightarrow> nat"
  assumes "\<exists>x \<in> set xs. P x"
  shows "\<exists>x \<in> set xs. P x \<and> (\<forall>y \<in> set xs. P y \<longrightarrow> f y \<le> f x)"
proof -
  let ?S = "f ` {x \<in> set xs. P x}"
  have fin: "finite ?S" by simp
  have ne: "?S \<noteq> {}" using assms by auto
  from Max_in [OF fin ne] obtain x where x: "x \<in> set xs" "P x" "f x = Max ?S" by auto
  have "\<forall>y \<in> set xs. P y \<longrightarrow> f y \<le> f x"
  proof (intro ballI impI)
    fix y assume "y \<in> set xs" "P y"
    then have "f y \<in> ?S" by auto
    then show "f y \<le> f x" using Max_ge [OF fin] x(3) by simp
  qed
  with x show ?thesis by blast
qed

lemma matching_prefixes_set:
  "set (matching_prefixes c path) =
     {Path e | e name inst. (name, inst) \<in> set (Instances c) \<and> e \<in> set (Endpoints inst) \<and> prefix (Path e) path}"
  unfolding matching_prefixes_def by auto

lemma sole_owner_longest:
  assumes own: "owns_matching_prefix inst path"
    and sole: "\<forall>(name', inst') \<in> set (Instances c). owns_matching_prefix inst' path \<longrightarrow> inst' = inst"
  shows "owns_longest_prefix c inst path"
proof -
  from own have "\<exists>e \<in> set (Endpoints inst). prefix (Path e) path"
    by (simp add: owns_matching_prefix_def)
  from longest_member [OF this, of "\<lambda>e. length (Path e)"]
  obtain e where e: "e \<in> set (Endpoints inst)" "prefix (Path e) path"
    and mx: "\<forall>y \<in> set (Endpoints inst). prefix (Path y) path \<longrightarrow> length (Path y) \<le> length (Path e)"
    by blast
  have "\<forall>p \<in> set (matching_prefixes c path). length p \<le> length (Path e)"
  proof
    fix p assume "p \<in> set (matching_prefixes c path)"
    then obtain e' name' inst' where p: "p = Path e'" "(name', inst') \<in> set (Instances c)"
      "e' \<in> set (Endpoints inst')" "prefix (Path e') path"
      unfolding matching_prefixes_set by blast
    then have "owns_matching_prefix inst' path" by (auto simp: owns_matching_prefix_def)
    with sole p(2) have "inst' = inst" by blast
    with p mx show "length p \<le> length (Path e)" by blast
  qed
  with e show ?thesis unfolding owns_longest_prefix_def by blast
qed

lemma find_first:
  "find P xs = Some x \<Longrightarrow> \<exists>pre post. xs = pre @ x # post \<and> P x \<and> (\<forall>y \<in> set pre. \<not> P y)"
  by (metis find_Some_iff in_set_conv_nth id_take_nth_drop length_take min.absorb4 nth_take)

text \<open>
  Claim C1, as the code has it. When no configured endpoint path is a prefix of the
  request path, \<open>GetInstanceByPath\<close> returns the error. Otherwise it returns exactly one
  instance: the first one, in the order in which the map is ranged over, that owns a
  matching prefix. That instance owns the longest matching prefix whenever every
  instance owning a matching prefix is that instance.
\<close>

theorem GetInstanceByPath_first_owner:
  "(\<not> (\<exists>(name, inst) \<in> set (Instances c). owns_matching_prefix inst path) \<longrightarrow>
      GetInstanceByPath c path = Inl (''no instance found for path: '' @ path)) \<and>
   ((\<exists>(name, inst) \<in> set (Instances c). owns_matching_prefix inst path) \<longrightarrow>
      (\<exists>pre name inst post.
         Instances c = pre @ (name, inst) # post \<and>
         (\<forall>(name', inst') \<in> set pre. \<not> owns_matching_prefix inst' path) \<and>
         owns_matching_prefix inst path \<and>
         GetInstanceByPath c path = Inr (inst, name) \<and>
         ((\<forall>(name', inst') \<in> set (Instances c). owns_matching_prefix inst' path \<longrightarrow> inst' = inst) \<longrightarrow>
            owns_longest_prefix c inst path)))"
proof (intro conjI impI)
  assume "\<not> (\<exists>(name, inst) \<in> set (Instances c). owns_matching_prefix inst path)"
  then have "find (\<lambda>(name, inst). owns_matching_prefix inst path) (Instances c) = None"
    by (auto simp: find_None_iff)
  then show "GetInstanceByPath c path = Inl (''no instance found for path: '' @ path)"
    by (simp add: GetInstanceByPath_def instance_by_path_find)
next
  assume "\<exists>(name, inst) \<in> set (Instances c). owns_matching_prefix inst path"
  then obtain x where fx: "find (\<lambda>(name, inst). owns_matching_prefix inst path) (Instances c) = Some x"
    by (cases "find (\<lambda>(name, inst). owns_matching_prefix inst path) (Instances c)")
       (auto simp: find_None_iff)
  obtain name inst where x: "x = (name, inst)" by (cases x)
  from find_first [OF fx] x obtain pre post where
    split: "Instances c = pre @ (name, inst) # post" and own: "owns_matching_prefix inst path"
    and before: "\<forall>y \<in> set pre. \<not> (case y of (name', inst') \<Rightarrow> owns_matching_prefix inst' path)"
    by auto
  have res: "GetInstanceByPath c path = Inr (inst, name)"
    using fx x by (simp add: GetInstanceByPath_def instance_by_path_find)
  have "(\<forall>(name', inst') \<in> set (Instances c). owns_matching_prefix inst' path \<longrightarrow> inst' = inst) \<longrightarrow>
            owns_longest_prefix c inst path"
    using sole_owner_longest [OF own] by blast
  with split own before res
  show "\<exists>pre name inst post.
         Instances c = pre @ (name, inst) # post \<and>
         (\<forall>(name', inst') \<in> set pre. \<not> owns_matching_prefix inst' path) \<and>
         owns_matching_prefix inst path \<and>
         GetInstanceByPath c path = Inr (inst, name) \<and>
         ((\<forall>(name', inst') \<in> set (Instances c). owns_matching_prefix inst' path \<longrightarrow> inst' = inst) \<longrightarrow>
            owns_longest_prefix c inst path)"
    by (intro exI [of _ pre] exI [of _ name] exI [of _ inst] exI [of _ post]) auto
qed

text \<open>
  The theorem at a configuration with one instance bound to \<open>/transparent/bedrock\<close>: the
  lookup of a path below it returns that instance, and a path outside it the error.
\<close>

theorem GetInstanceByPath_first_owner_witness:
  "GetInstanceByPath
     (example_config [(''bedrock_all'', example_instance ''bedrock'' ''transparent'' [] [''/transparent/bedrock''])])
     ''/transparent/bedrock/model/invoke''
   = Inr (example_instance ''bedrock'' ''transparent'' [] [''/transparent/bedrock''], ''bedrock_all'') \<and>
   owns_longest_prefix
     (example_config [(''bedrock_all'', example_instance ''bedrock'' ''transparent'' [] [''/transparent/bedrock''])])
     (example_instance ''bedrock'' ''transparent'' [] [''/transparent/bedrock''])
     ''/transparent/bedrock/model/invoke'' \<and>
   GetInstanceByPath
     (example_config [(''bedrock_all'', example_instance ''bedrock'' ''transparent'' [] [''/transparent/bedrock''])])
     ''/health''
   = Inl ''no instance found for path: /health''"
  using GetInstanceByPath_first_owner
    [of "example_config [(''bedrock_all'', example_instance ''bedrock'' ''transparent'' [] [''/transparent/bedrock''])]"
        "''/transparent/bedrock/model/invoke''"]
    GetInstanceByPath_first_owner
    [of "example_config [(''bedrock_all'', example_instance ''bedrock'' ''transparent'' [] [''/transparent/bedrock''])]"
        "''/health''"]
  by (simp add: example_config_def example_instance_def owns_matching_prefix_def
      owns_longest_prefix_def matching_prefixes_def GetInstanceByPath_def HasPrefix_def)

text \<open>
  Claim C1 as stated fails. Two instances own nested prefixes, \<open>/transparent/bedrock\<close>
  and \<open>/transparent/bedrock/eu\<close>, each prefix owned by one instance only. When the range
  over the map visits \<open>bedrock_all\<close> first, a path under the longer prefix resolves to
  \<open>bedrock_all\<close>, which does not own the longest matching prefix.
\<close>

theorem GetInstanceByPath_not_longest_counterexample:
  "GetInstanceByPath nested_config ''/transparent/bedrock/eu/model/invoke''
     = Inr (example_instance ''bedrock'' ''transparent'' [] [''/transparent/bedrock''], ''bedrock_all'') \<and>
   \<not> owns_longest_prefix nested_config
        (example_instance ''bedrock'' ''transparent'' [] [''/transparent/bedrock''])
        ''/transparent/bedrock/eu/model/invoke''"
  by (simp add: nested_config_def example_config_def example_instance_def GetInstanceByPath_def
      HasPrefix_def owns_longest_prefix_def matching_prefixes_def)

section \<open>The path forwarded in transparent mode\<close>

lemma strict_extension_iff:
  fixes p :: string
  shows "(length p < length fullPath \<and> take (length p) fullPath = p) \<longleftrightarrow> strict_prefix p fullPath"
proof
  assume a: "length p < length fullPath \<and> take (length p) fullPath = p"
  then have "prefix p fullPath" by (metis take_is_prefix)
  moreover from a have "p \<noteq> fullPath" by auto
  ultimately show "strict_prefix p fullPath" by (simp add: strict_prefix_def)
next
  assume a: "strict_prefix p fullPath"
  then have "prefix p fullPath" by (simp add: strict_prefix_def)
  then have "take (length p) fullPath = p"
    using HasPrefix_iff_prefix [of fullPath p] by (simp add: HasPrefix_def)
  with prefix_length_less [OF a]
  show "length p < length fullPath \<and> take (length p) fullPath = p" by simp
qed

lemma extractProviderPath_find:
  "extractProviderPath fullPath endpoints =
     (case find (\<lambda>e. strict_prefix (Path e) fullPath) endpoints of
        None \<Rightarrow> fullPath
      | Some e \<Rightarrow> drop (length (Path e)) fullPath)"
  by (induction endpoints) (simp_all add: strict_extension_iff)

lemma extractProviderPath_of_matched:
  assumes "matched_endpoint fullPath endpoints = Some e"
  shows "(length (Path e) < length fullPath \<longrightarrow>
            extractProviderPath fullPath endpoints = drop (length (Path e)) fullPath \<and>
            fullPath = Path e @ extractProviderPath fullPath endpoints) \<and>
         (fullPath = Path e \<and> (\<forall>e' \<in> set endpoints. \<not> strict_prefix (Path e') fullPath) \<longrightarrow>
            extractProviderPath fullPath endpoints = fullPath)"
proof (intro conjI impI)
  assume len: "length (Path e) < length fullPath"
  from assms obtain i where i: "i < length endpoints" "endpoints ! i = e" "prefix (Path e) fullPath"
    "\<forall>j < i. \<not> prefix (Path (endpoints ! j)) fullPath"
    unfolding matched_endpoint_def by (auto simp: find_Some_iff HasPrefix_iff_prefix)
  have sp: "strict_prefix (Path e) fullPath" using i(3) len by (auto simp: strict_prefix_def)
  have "find (\<lambda>e. strict_prefix (Path e) fullPath) endpoints = Some e"
    unfolding find_Some_iff using i sp by (auto simp: strict_prefix_def intro!: exI [of _ i])
  then show a: "extractProviderPath fullPath endpoints = drop (length (Path e)) fullPath"
    by (simp add: extractProviderPath_find)
  from i(3) show "fullPath = Path e @ extractProviderPath fullPath endpoints"
    unfolding a by (auto simp: prefix_def)
next
  assume "fullPath = Path e \<and> (\<forall>e' \<in> set endpoints. \<not> strict_prefix (Path e') fullPath)"
  then have "find (\<lambda>e. strict_prefix (Path e) fullPath) endpoints = None"
    by (auto simp: find_None_iff)
  then show "extractProviderPath fullPath endpoints = fullPath"
    by (simp add: extractProviderPath_find)
qed

lemma lookup_has_matched_endpoint:
  assumes "GetInstanceByPath config path = Inr (instanceCfg, instanceName)"
  shows "\<exists>e. matched_endpoint path (Endpoints instanceCfg) = Some e"
proof -
  from assms have "find (\<lambda>(name, inst). owns_matching_prefix inst path) (Instances config)
                     = Some (instanceName, instanceCfg)"
    by (auto simp: GetInstanceByPath_def instance_by_path_find split: option.splits)
  then have "owns_matching_prefix instanceCfg path" by (auto simp: find_Some_iff)
  then have "find (\<lambda>e. HasPrefix path (Path e)) (Endpoints instanceCfg) \<noteq> None"
    by (auto simp: owns_matching_prefix_def find_None_iff HasPrefix_iff_prefix)
  then show ?thesis by (auto simp: matched_endpoint_def)
qed

lemma transparent_invokes_once:
  assumes "GetInstanceByPath config (URLPath r) = Inr (instanceCfg, instanceName)"
    and "Mode instanceCfg = ''transparent''"
    and "providers (Type instanceCfg) = Some provider"
    and "RawData r = Inr body"
  shows "invoked (TransparentHandler_HandleRequest providers config r) =
           [transparent_provider_request instanceCfg r body]"
  using assms
  by (simp add: TransparentHandler_HandleRequest_def Let_def
      split: sum.splits invoke_error.splits)

text \<open>
  Claim C9, as the code has it. A transparent request whose path resolves to a
  transparent instance with a registered provider and a readable body is handed to the
  provider once. Let \<open>e\<close> be the endpoint the lookup matched. If the request path strictly
  extends the path of \<open>e\<close>, the path of the request handed to the provider is the request
  path with that prefix removed. If the request path equals the path of \<open>e\<close> and no
  endpoint of the instance has a path that the request path strictly extends, the path
  handed to the provider is the request path unchanged.
\<close>

theorem transparent_forwarded_path:
  assumes "GetInstanceByPath config (URLPath r) = Inr (instanceCfg, instanceName)"
    and "Mode instanceCfg = ''transparent''"
    and "providers (Type instanceCfg) = Some provider"
    and "RawData r = Inr body"
  shows "\<exists>e req.
           matched_endpoint (URLPath r) (Endpoints instanceCfg) = Some e \<and>
           invoked (TransparentHandler_HandleRequest providers config r) = [req] \<and>
           ReqMethod req = Method r \<and> ReqBody req = body \<and>
           (length (Path e) < length (URLPath r) \<longrightarrow>
              ReqPath req = drop (length (Path e)) (URLPath r) \<and>
              URLPath r = Path e @ ReqPath req) \<and>
           (URLPath r = Path e \<and>
              (\<forall>e' \<in> set (Endpoints instanceCfg). \<not> strict_prefix (Path e') (URLPath r)) \<longrightarrow>
              ReqPath req = URLPath r)"
proof -
  from lookup_has_matched_endpoint [OF assms(1)]
  obtain e where e: "matched_endpoint (URLPath r) (Endpoints instanceCfg) = Some e" by blast
  let ?req = "transparent_provider_request instanceCfg r body"
  have p: "ReqPath ?req = extractProviderPath (URLPath r) (Endpoints instanceCfg)"
    and m: "ReqMethod ?req = Method r" and b: "ReqBody ?req = body"
    by (simp_all add: transparent_provider_request_def)
  have "(length (Path e) < length (URLPath r) \<longrightarrow>
              ReqPath ?req = drop (length (Path e)) (URLPath r) \<and>
              URLPath r = Path e @ ReqPath ?req) \<and>
           (URLPath r = Path e \<and>
              (\<forall>e' \<in> set (Endpoints instanceCfg). \<not> strict_prefix (Path e') (URLPath r)) \<longrightarrow>
              ReqPath ?req = URLPath r)"
    unfolding p by (rule extractProviderPath_of_matched [OF e])
  moreover have "invoked (TransparentHandler_HandleRequest providers config r) = [?req]"
    using assms by (rule transparent_invokes_once)
  ultimately show ?thesis using e m b by blast
qed

text \<open>
  The theorem at an instance bound to \<open>/transparent/openai\<close>: a longer path is forwarded
  without the prefix.
\<close>

theorem transparent_forwarded_path_witness:
  "map ReqPath (invoked (TransparentHandler_HandleRequest [''openai'' \<mapsto> example_provider]
     openai_transparent_config
     (example_request ''POST'' ''/transparent/openai/chat/completions'' [])))
   = [''/chat/completions'']"
  using transparent_forwarded_path
    [of openai_transparent_config
        "example_request ''POST'' ''/transparent/openai/chat/completions'' []"
        "example_instance ''openai'' ''transparent'' [] [''/transparent/openai'']"
        "''openai_transparent''" "[''openai'' \<mapsto> example_provider]" example_provider "''{}''"]
  by (simp add: openai_transparent_config_def example_config_def example_instance_def
      example_request_def example_provider_def example_response_def GetInstanceByPath_def
      HasPrefix_def matched_endpoint_def TransparentHandler_HandleRequest_def
      transparent_provider_request_def Render_def bodyAllowedForStatus_def)

text \<open>
  Claim C9 as stated fails. The instance declares \<open>/transparent/bedrock/eu\<close> and then
  \<open>/transparent/bedrock\<close>. A request for exactly \<open>/transparent/bedrock/eu\<close> is matched
  by the first endpoint, with no remaining suffix, yet the path handed to the provider
  is \<open>/eu\<close>: the loop skips the equal endpoint and strips the second one.
\<close>

theorem transparent_equal_prefix_counterexample:
  "GetInstanceByPath eu_first_config ''/transparent/bedrock/eu''
     = Inr (example_instance ''bedrock'' ''transparent'' []
              [''/transparent/bedrock/eu'', ''/transparent/bedrock''], ''bedrock_eu'') \<and>
   matched_endpoint ''/transparent/bedrock/eu''
     (Endpoints (example_instance ''bedrock'' ''transparent'' []
        [''/transparent/bedrock/eu'', ''/transparent/bedrock'']))
     = Some \<lparr>Path = ''/transparent/bedrock/eu'', Methods = [''POST'']\<rparr> \<and>
   map ReqPath (invoked (TransparentHandler_HandleRequest [''bedrock'' \<mapsto> example_provider]
     eu_first_config (example_request ''POST'' ''/transparent/bedrock/eu'' [])))
   = [''/eu'']"
  by (simp add: eu_first_config_def example_config_def example_instance_def example_request_def
      example_provider_def example_response_def GetInstanceByPath_def HasPrefix_def
      matched_endpoint_def TransparentHandler_HandleRequest_def transparent_provider_request_def
      Render_def bodyAllowedForStatus_def)



section \<open>The transparent reply\<close>




section \<open>The headers forwarded in transparent mode\<close>

text \<open>
  Claim C3 at a request a caller can send: \<open>Authorization\<close>, \<open>X-API-Key\<close> and \<open>Accept\<close>.
  The HTTP server stores \<open>X-API-Key\<close> under its canonical key \<open>X-Api-Key\<close>, which
  \<open>isAuthHeader\<close> does not accept, because it compares the key byte by byte with its five
  spellings. The header map handed to the provider therefore contains the caller's API
  key; only \<open>Authorization\<close> is removed.
\<close>

theorem caller_api_key_header_forwarded:
  "CanonicalMIMEHeaderKey ''X-API-Key'' = ''X-Api-Key'' \<and>
   \<not> isAuthHeader ''X-Api-Key'' \<and>
   map ReqHeaders (invoked (TransparentHandler_HandleRequest [''openai'' \<mapsto> example_provider]
     openai_transparent_config
     (example_request ''POST'' ''/transparent/openai/chat/completions''
        [(''Authorization'', [''Bearer caller'']), (''X-Api-Key'', [''caller-key'']),
         (''Accept'', [''*/*''])])))
   = [[(''X-Api-Key'', ''caller-key''), (''Accept'', ''*/*'')]]"
  by (simp add: openai_transparent_config_def example_config_def example_instance_def
      example_request_def example_provider_def example_response_def GetInstanceByPath_def
      HasPrefix_def TransparentHandler_HandleRequest_def transparent_provider_request_def
      isAuthHeader_def authHeaders_def Header_Get_def first_value_def CanonicalMIMEHeaderKey_def
      validHeaderFieldByte_def to_upper_def to_lower_def lower_letters_def upper_letters_def Let_def)

section \<open>A path that resolves to no instance\<close>

text \<open>
  Claim C7, as the code has it. When the lookup fails, both handlers reply with status
  404 and call no provider. The protocol handler's body is the error object with type
  \<open>invalid_request_error\<close> and code \<open>instance_not_found\<close>; the transparent handler's body
  is an object whose only member \<open>error\<close> is a string.
\<close>

theorem unresolved_path_replies:
  assumes "GetInstanceByPath config (URLPath r) = Inl err"
  shows "ProtocolHandler_HandleRequest t providers config startTime uuid r =
           \<lparr>result = Replied
              \<lparr>Status = 404, HeaderCalls = [],
               Body = JSONError \<lparr>Message = ''No provider instance configured for this path'',
                        ErrType = ''invalid_request_error'', Code = ''instance_not_found''\<rparr>\<rparr>,
            invoked = []\<rparr> \<and>
         TransparentHandler_HandleRequest providers config r =
           \<lparr>result = Replied
              \<lparr>Status = 404, HeaderCalls = [],
               Body = JSONObject [(''error'', ''No provider instance configured for this path'')]\<rparr>,
            invoked = []\<rparr>"
  using assms
  by (simp add: ProtocolHandler_HandleRequest_def TransparentHandler_HandleRequest_def
      no_call_def reply_json_def Render_def bodyAllowedForStatus_def error_response_def)

theorem unresolved_path_replies_witness:
  "canonical_error_reply
     (ProtocolHandler_HandleRequest example_translator Map.empty (example_config []) 0 example_uuid
        (example_request ''GET'' ''/does-not-exist'' []))
     404 ''invalid_request_error'' ''instance_not_found''"
  using unresolved_path_replies
    [of "example_config []" "example_request ''GET'' ''/does-not-exist'' []"
        "''no instance found for path: /does-not-exist''" example_translator Map.empty 0 example_uuid]
  by (simp add: example_config_def example_request_def GetInstanceByPath_def canonical_error_reply_def)

text \<open>
  Claim C7 as stated fails: for \<open>/does-not-exist\<close> under an empty configuration neither
  handler's reply is the error object of type \<open>not_found\<close> with code \<open>instance_not_found\<close>.
\<close>

theorem unresolved_path_type_counterexample:
  "\<not> canonical_error_reply
       (ProtocolHandler_HandleRequest example_translator Map.empty (example_config []) 0 example_uuid
          (example_request ''GET'' ''/does-not-exist'' []))
       404 ''not_found'' ''instance_not_found'' \<and>
   \<not> canonical_error_reply
       (TransparentHandler_HandleRequest Map.empty (example_config [])
          (example_request ''GET'' ''/does-not-exist'' []))
       404 ''not_found'' ''instance_not_found''"
  by (simp add: example_config_def example_request_def GetInstanceByPath_def canonical_error_reply_def
      ProtocolHandler_HandleRequest_def TransparentHandler_HandleRequest_def
      no_call_def reply_json_def Render_def bodyAllowedForStatus_def error_response_def)

section \<open>The allowed methods of an endpoint\<close>

lemma endpoint_matches_with_methods:
  "endpoint_matches path (map (endpoint_with_methods f) es) = endpoint_matches path es"
  by (induction es) (simp_all add: endpoint_with_methods_def)

lemma instance_by_path_with_methods:
  "instance_by_path (map (\<lambda>(name, inst). (name, instance_with_methods f inst)) insts) path =
     (case instance_by_path insts path of
        Inl err \<Rightarrow> Inl err
      | Inr (inst, name) \<Rightarrow> Inr (instance_with_methods f inst, name))"
  by (induction insts) (auto simp: endpoint_matches_with_methods instance_with_methods_def)

lemma extractProviderPath_with_methods:
  "extractProviderPath path (map (endpoint_with_methods f) es) = extractProviderPath path es"
  by (induction es) (simp_all add: endpoint_with_methods_def)

lemma transparent_provider_request_with_methods:
  "transparent_provider_request (instance_with_methods f inst) r body =
     transparent_provider_request inst r body"
  by (simp add: transparent_provider_request_def instance_with_methods_def
      extractProviderPath_with_methods)

lemma build_provider_request_with_methods:
  "build_provider_request t (instance_with_methods f inst) req = build_provider_request t inst req"
  by (simp add: build_provider_request_def instance_with_methods_def)

lemma parse_provider_response_with_methods:
  "parse_provider_response t (instance_with_methods f inst) resp m i =
     parse_provider_response t inst resp m i"
  by (simp add: parse_provider_response_def instance_with_methods_def)

lemma handleOpenAIProtocol_with_methods:
  "handleOpenAIProtocol t r provider (instance_with_methods f inst) startTime uuid =
     handleOpenAIProtocol t r provider inst startTime uuid"
  by (simp add: handleOpenAIProtocol_def build_provider_request_with_methods
      parse_provider_response_with_methods cong: sum.case_cong)

lemma fields_with_methods:
  "Mode (instance_with_methods f inst) = Mode inst"
  "Type (instance_with_methods f inst) = Type inst"
  "Protocol (instance_with_methods f inst) = Protocol inst"
  by (simp_all add: instance_with_methods_def)

lemma transparent_405_is_relayed:
  assumes "result (TransparentHandler_HandleRequest providers config r) = Replied rep"
    and "Status rep = 405"
  shows "invoked (TransparentHandler_HandleRequest providers config r) \<noteq> []"
  using assms
  by (auto simp: TransparentHandler_HandleRequest_def no_call_def reply_json_def Render_def
      bodyAllowedForStatus_def Let_def
      split: sum.splits option.splits if_splits prod.splits invoke_error.splits)

lemma handleOpenAIProtocol_405_is_relayed:
  assumes "result (handleOpenAIProtocol t r provider instanceCfg startTime uuid) = Replied rep"
    and "Status rep = 405"
  shows "invoked (handleOpenAIProtocol t r provider instanceCfg startTime uuid) \<noteq> []"
  using assms
  by (auto simp: handleOpenAIProtocol_def no_call_def reply_json_def Render_def
      bodyAllowedForStatus_def error_response_def build_provider_request_def
      marshal_request_def Let_def
      split: sum.splits option.splits if_splits)

lemma protocol_405_is_relayed:
  assumes "result (ProtocolHandler_HandleRequest t providers config startTime uuid r) = Replied rep"
    and "Status rep = 405"
  shows "invoked (ProtocolHandler_HandleRequest t providers config startTime uuid r) \<noteq> []"
  using assms handleOpenAIProtocol_405_is_relayed [of t r _ _ startTime uuid rep]
  by (auto simp: ProtocolHandler_HandleRequest_def no_call_def reply_json_def Render_def
      bodyAllowedForStatus_def
      split: sum.splits option.splits if_splits prod.splits)

lemma handlers_invariant_under_methods:
  "TransparentHandler_HandleRequest providers (with_methods f config) r =
     TransparentHandler_HandleRequest providers config r \<and>
   ProtocolHandler_HandleRequest t providers (with_methods f config) startTime uuid r =
     ProtocolHandler_HandleRequest t providers config startTime uuid r"
proof -
  have g: "GetInstanceByPath (with_methods f config) (URLPath r) =
     (case GetInstanceByPath config (URLPath r) of
        Inl err \<Rightarrow> Inl err
      | Inr (inst, name) \<Rightarrow> Inr (instance_with_methods f inst, name))"
    by (simp add: GetInstanceByPath_def with_methods_def instance_by_path_with_methods)
  show ?thesis
  proof (cases "GetInstanceByPath config (URLPath r)")
    case (Inl err)
    with g show ?thesis
      by (simp add: TransparentHandler_HandleRequest_def ProtocolHandler_HandleRequest_def)
  next
    case (Inr p)
    obtain inst name where p: "p = (inst, name)" by (cases p)
    with g Inr show ?thesis
      by (simp add: TransparentHandler_HandleRequest_def ProtocolHandler_HandleRequest_def
          fields_with_methods transparent_provider_request_with_methods
          handleOpenAIProtocol_with_methods
          cong: option.case_cong sum.case_cong if_cong)
  qed
qed

text \<open>
  Claim C8, as the code has it. Neither handler reads an endpoint's list of allowed
  methods: replacing every list of the configuration by any other list changes neither
  the reply nor the requests handed to the provider. A request whose path resolves to a
  transparent instance with a registered provider and a readable body is handed to the
  provider once, with the request's own method, whatever the list contains. Neither
  handler replies with status 405 without having called the provider.
\<close>

theorem handlers_ignore_allowed_methods:
  "TransparentHandler_HandleRequest providers (with_methods f config) r =
     TransparentHandler_HandleRequest providers config r \<and>
   ProtocolHandler_HandleRequest t providers (with_methods f config) startTime uuid r =
     ProtocolHandler_HandleRequest t providers config startTime uuid r \<and>
   (\<forall>instanceCfg instanceName provider body.
      GetInstanceByPath config (URLPath r) = Inr (instanceCfg, instanceName) \<and>
      Mode instanceCfg = ''transparent'' \<and> providers (Type instanceCfg) = Some provider \<and>
      RawData r = Inr body \<longrightarrow>
        (\<exists>req. invoked (TransparentHandler_HandleRequest providers config r) = [req] \<and>
               ReqMethod req = Method r)) \<and>
   (\<forall>rep. result (TransparentHandler_HandleRequest providers config r) = Replied rep \<and>
          Status rep = 405 \<longrightarrow>
            invoked (TransparentHandler_HandleRequest providers config r) \<noteq> []) \<and>
   (\<forall>rep. result (ProtocolHandler_HandleRequest t providers config startTime uuid r) = Replied rep \<and>
          Status rep = 405 \<longrightarrow>
            invoked (ProtocolHandler_HandleRequest t providers config startTime uuid r) \<noteq> [])"
proof (intro conjI allI impI)
  show "TransparentHandler_HandleRequest providers (with_methods f config) r =
          TransparentHandler_HandleRequest providers config r"
    using handlers_invariant_under_methods by blast
  show "ProtocolHandler_HandleRequest t providers (with_methods f config) startTime uuid r =
          ProtocolHandler_HandleRequest t providers config startTime uuid r"
    using handlers_invariant_under_methods by blast
next
  fix instanceCfg instanceName provider body
  assume "GetInstanceByPath config (URLPath r) = Inr (instanceCfg, instanceName) \<and>
      Mode instanceCfg = ''transparent'' \<and> providers (Type instanceCfg) = Some provider \<and>
      RawData r = Inr body"
  then have "invoked (TransparentHandler_HandleRequest providers config r) =
               [transparent_provider_request instanceCfg r body]"
    using transparent_invokes_once by blast
  moreover have "ReqMethod (transparent_provider_request instanceCfg r body) = Method r"
    by (simp add: transparent_provider_request_def)
  ultimately show "\<exists>req. invoked (TransparentHandler_HandleRequest providers config r) = [req] \<and>
               ReqMethod req = Method r"
    by blast
next
  fix rep
  assume "result (TransparentHandler_HandleRequest providers config r) = Replied rep \<and>
          Status rep = 405"
  then show "invoked (TransparentHandler_HandleRequest providers config r) \<noteq> []"
    using transparent_405_is_relayed by blast
next
  fix rep
  assume "result (ProtocolHandler_HandleRequest t providers config startTime uuid r) = Replied rep \<and>
          Status rep = 405"
  then show "invoked (ProtocolHandler_HandleRequest t providers config startTime uuid r) \<noteq> []"
    using protocol_405_is_relayed by blast
qed

text \<open>
  The theorem at the instance bound to \<open>/transparent/openai\<close> with every list of allowed
  methods emptied: a \<open>DELETE\<close> request is forwarded and answered by the provider.
\<close>

theorem handlers_ignore_allowed_methods_witness:
  "TransparentHandler_HandleRequest [''openai'' \<mapsto> example_provider]
     (with_methods (\<lambda>ms. []) openai_transparent_config)
     (example_request ''DELETE'' ''/transparent/openai/files/f1'' [])
   = \<lparr>result = Replied \<lparr>Status = 200, HeaderCalls = [(''Content-Type'', ''application/json'')],
                 Body = Data ''application/json'' ''{id:upstream-1}''\<rparr>,
      invoked = [\<lparr>ReqMethod = ''DELETE'', ReqPath = ''/files/f1'', ReqHeaders = [],
                  ReqBody = ''{}'', ReqQueryParams = []\<rparr>]\<rparr>"
proof -
  have "TransparentHandler_HandleRequest [''openai'' \<mapsto> example_provider]
          (with_methods (\<lambda>ms. []) openai_transparent_config)
          (example_request ''DELETE'' ''/transparent/openai/files/f1'' [])
        = TransparentHandler_HandleRequest [''openai'' \<mapsto> example_provider]
            openai_transparent_config
            (example_request ''DELETE'' ''/transparent/openai/files/f1'' [])"
    using handlers_ignore_allowed_methods
      [of "[''openai'' \<mapsto> example_provider]" "\<lambda>ms. []" openai_transparent_config
          "example_request ''DELETE'' ''/transparent/openai/files/f1'' []"
          example_translator 0 example_uuid]
    by (rule conjunct1)
  also have "\<dots> = \<lparr>result = Replied \<lparr>Status = 200,
                   HeaderCalls = [(''Content-Type'', ''application/json'')],
                   Body = Data ''application/json'' ''{id:upstream-1}''\<rparr>,
                 invoked = [\<lparr>ReqMethod = ''DELETE'', ReqPath = ''/files/f1'', ReqHeaders = [],
                             ReqBody = ''{}'', ReqQueryParams = []\<rparr>]\<rparr>"
    by (simp add: openai_transparent_config_def example_config_def example_instance_def
        example_request_def example_provider_def example_response_def GetInstanceByPath_def
        HasPrefix_def TransparentHandler_HandleRequest_def transparent_provider_request_def
        getContentType_def Render_def bodyAllowedForStatus_def)
  finally show ?thesis .
qed

text \<open>
  Claim C8 as stated fails. The endpoint \<open>/transparent/openai\<close> allows \<open>POST\<close> only; a
  \<open>DELETE\<close> request under it is not rejected with status 405 but handed to the provider
  with the method \<open>DELETE\<close>, and the provider's response is the reply.
\<close>

theorem method_not_checked_counterexample:
  "map Methods (Endpoints (example_instance ''openai'' ''transparent'' [] [''/transparent/openai'']))
     = [[''POST'']] \<and>
   TransparentHandler_HandleRequest [''openai'' \<mapsto> example_provider] openai_transparent_config
     (example_request ''DELETE'' ''/transparent/openai/files/f1'' [])
   = \<lparr>result = Replied \<lparr>Status = 200, HeaderCalls = [(''Content-Type'', ''application/json'')],
                 Body = Data ''application/json'' ''{id:upstream-1}''\<rparr>,
      invoked = [\<lparr>ReqMethod = ''DELETE'', ReqPath = ''/files/f1'', ReqHeaders = [],
                  ReqBody = ''{}'', ReqQueryParams = []\<rparr>]\<rparr>"
  by (simp add: openai_transparent_config_def example_config_def example_instance_def
      example_request_def example_provider_def example_response_def GetInstanceByPath_def
      HasPrefix_def TransparentHandler_HandleRequest_def transparent_provider_request_def
      getContentType_def Render_def bodyAllowedForStatus_def)

section \<open>A protocol tag other than openai\<close>

text \<open>
  Claim C10, as the code has it. For a request matched to a protocol-mode instance whose
  protocol tag is not \<open>openai\<close>, the provider is never invoked. When the instance's
  provider kind is registered the reply is status 501 with code
  \<open>protocol_not_implemented\<close>; when it is not registered the earlier check replies with
  status 503 and code \<open>provider_unavailable\<close>.
\<close>

theorem non_openai_protocol_reply:
  assumes "GetInstanceByPath config (URLPath r) = Inr (instanceCfg, instanceName)"
    and "Mode instanceCfg = ''protocol''"
    and "Protocol instanceCfg \<noteq> ''openai''"
  shows "invoked (ProtocolHandler_HandleRequest t providers config startTime uuid r) = [] \<and>
         (providers (Type instanceCfg) \<noteq> None \<longrightarrow>
            canonical_error_reply (ProtocolHandler_HandleRequest t providers config startTime uuid r)
              501 ''not_implemented_error'' ''protocol_not_implemented'') \<and>
         (providers (Type instanceCfg) = None \<longrightarrow>
            canonical_error_reply (ProtocolHandler_HandleRequest t providers config startTime uuid r)
              503 ''service_error'' ''provider_unavailable'')"
  using assms
  by (auto simp add: ProtocolHandler_HandleRequest_def canonical_error_reply_def
      no_call_def reply_json_def Render_def bodyAllowedForStatus_def error_response_def split: option.splits)

theorem non_openai_protocol_reply_witness:
  "canonical_error_reply
     (ProtocolHandler_HandleRequest example_translator [''vertex'' \<mapsto> example_provider]
        vertex_anthropic_config 0 example_uuid
        (example_request ''POST'' ''/anthropic/vertex/messages'' []))
     501 ''not_implemented_error'' ''protocol_not_implemented'' \<and>
   invoked
     (ProtocolHandler_HandleRequest example_translator [''vertex'' \<mapsto> example_provider]
        vertex_anthropic_config 0 example_uuid
        (example_request ''POST'' ''/anthropic/vertex/messages'' [])) = []"
  using non_openai_protocol_reply
    [of vertex_anthropic_config "example_request ''POST'' ''/anthropic/vertex/messages'' []"
        "example_instance ''vertex'' ''protocol'' ''anthropic'' [''/anthropic/vertex'']"
        "''vertex_anthropic''" example_translator "[''vertex'' \<mapsto> example_provider]" 0 example_uuid]
  by (simp add: vertex_anthropic_config_def example_config_def example_instance_def
      example_request_def GetInstanceByPath_def HasPrefix_def)

text \<open>
  Claim C10 as stated fails. The instance is in protocol mode with the protocol tag
  \<open>anthropic\<close> and the provider kind \<open>vertex\<close>, and no provider is registered: the reply
  is status 503 with code \<open>provider_unavailable\<close>, not status 501.
\<close>

theorem non_openai_protocol_unregistered_counterexample:
  "GetInstanceByPath vertex_anthropic_config ''/anthropic/vertex/messages''
     = Inr (example_instance ''vertex'' ''protocol'' ''anthropic'' [''/anthropic/vertex''],
            ''vertex_anthropic'') \<and>
   canonical_error_reply
     (ProtocolHandler_HandleRequest example_translator Map.empty vertex_anthropic_config 0 example_uuid
        (example_request ''POST'' ''/anthropic/vertex/messages'' []))
     503 ''service_error'' ''provider_unavailable'' \<and>
   \<not> canonical_error_reply
       (ProtocolHandler_HandleRequest example_translator Map.empty vertex_anthropic_config 0 example_uuid
          (example_request ''POST'' ''/anthropic/vertex/messages'' []))
       501 ''not_implemented_error'' ''protocol_not_implemented''"
  by (simp add: vertex_anthropic_config_def example_config_def example_instance_def
      example_request_def GetInstanceByPath_def HasPrefix_def ProtocolHandler_HandleRequest_def
      canonical_error_reply_def no_call_def reply_json_def Render_def bodyAllowedForStatus_def error_response_def)

section \<open>The response id and creation time in protocol mode\<close>

lemma hextable_lower_hex: "n < 16 \<Longrightarrow> is_lower_hex (hextable ! n)"
proof -
  assume n: "n < 16"
  have "list_all is_lower_hex hextable" by (simp add: hextable_def is_lower_hex_def)
  moreover have "length hextable = 16" by (simp add: hextable_def)
  ultimately show ?thesis using n by (simp add: list_all_length)
qed

lemma high_nibble: "unat (drop_bit 4 (v :: 8 word)) < 16"
proof -
  have "unat v < 2 ^ 8" using unsigned_less [of v, where ?'a = nat] by simp
  moreover have "unat (drop_bit 4 v) = unat v div 2 ^ 4"
    by (subst unat_drop_bit_eq) (rule drop_bit_eq_div)
  ultimately show ?thesis by simp
qed

lemma low_nibble: "unat (and (v :: 8 word) 0x0f) < 16"
proof -
  have "and v 0x0f \<le> 0x0f" by (rule word_and_le1)
  then have "unat (and v 0x0f) \<le> unat (0x0f :: 8 word)" by (simp add: word_le_nat_alt)
  then show ?thesis by simp
qed

lemma hex_Encode_lower_hex: "list_all is_lower_hex (hex_Encode bs)"
  by (induction bs) (simp_all add: hextable_lower_hex high_nibble low_nibble)

lemma length_hex_Encode: "length (hex_Encode bs) = 2 * length bs"
  by (induction bs) simp_all

lemma take8_UUID_String:
  "4 \<le> length uuid \<Longrightarrow> take 8 (UUID_String uuid) = hex_Encode (take 4 uuid)"
  by (simp add: UUID_String_def length_hex_Encode)

lemma new_request_id_shape: "4 \<le> length uuid \<Longrightarrow> matches_chatcmpl_id (new_request_id uuid)"
  by (simp add: new_request_id_def matches_chatcmpl_id_def take8_UUID_String length_hex_Encode
      hex_Encode_lower_hex)

lemma handleOpenAIProtocol_chat:
  assumes "result (handleOpenAIProtocol t r provider instanceCfg startTime uuid) = Replied rep"
    and "Body rep = JSONChat resp"
  shows "Status rep = 200 \<and> ID resp = new_request_id uuid \<and> Created resp = startTime"
  using assms
  by (auto simp: handleOpenAIProtocol_def no_call_def reply_json_def Render_def bodyAllowedForStatus_def error_response_def
      build_provider_request_def marshal_request_def parse_provider_response_def
      response_parse_error_def handleProviderError_def Let_def
      split: sum.splits option.splits if_splits invoke_error.splits)

text \<open>
  Claim C6. A successful protocol-mode response is a reply of the protocol handler whose
  body is a chat response. Its status is 200, its id is \<open>chatcmpl-\<close> followed by the
  first eight hexadecimal digits of the fresh UUID, so it has the shape
  \<open>^chatcmpl-[0-9a-f]{8}$\<close> and is not the id the provider sent, and its creation time is
  the request-start timestamp.
\<close>

theorem protocol_response_id_and_created:
  assumes "length uuid = 16"
    and "result (ProtocolHandler_HandleRequest t providers config startTime uuid r) = Replied rep"
    and "Body rep = JSONChat resp"
  shows "Status rep = 200 \<and> ID resp = new_request_id uuid \<and> matches_chatcmpl_id (ID resp) \<and>
         Created resp = startTime"
proof -
  from assms(2,3) obtain provider instanceCfg where
    "result (handleOpenAIProtocol t r provider instanceCfg startTime uuid) = Replied rep"
    by (auto simp: ProtocolHandler_HandleRequest_def no_call_def reply_json_def Render_def bodyAllowedForStatus_def error_response_def
        split: sum.splits option.splits if_splits prod.splits)
  from handleOpenAIProtocol_chat [OF this assms(3)] new_request_id_shape [of uuid] assms(1)
  show ?thesis by simp
qed

text \<open>
  The theorem at a protocol instance of kind \<open>openai\<close>: the provider's response carries
  the id \<open>upstream-1\<close> and the creation time 7; the reply carries the generated id and
  the request-start time.
\<close>

theorem protocol_response_id_and_created_witness:
  "result (ProtocolHandler_HandleRequest example_translator [''openai'' \<mapsto> example_provider]
     openai_protocol_config 1730000000 example_uuid
     (example_request ''POST'' ''/openai/openai/chat/completions'' []))
   = Replied \<lparr>Status = 200, HeaderCalls = [],
       Body = JSONChat \<lparr>ID = ''chatcmpl-3fa900c4'', Created = 1730000000, Model = ''gpt'',
                Rest = ''{id:upstream-1}''\<rparr>\<rparr> \<and>
   matches_chatcmpl_id ''chatcmpl-3fa900c4''"
  using protocol_response_id_and_created
    [of example_uuid example_translator "[''openai'' \<mapsto> example_provider]"
        openai_protocol_config 1730000000
        "example_request ''POST'' ''/openai/openai/chat/completions'' []"
        "\<lparr>Status = 200, HeaderCalls = [],
          Body = JSONChat \<lparr>ID = ''chatcmpl-3fa900c4'', Created = 1730000000, Model = ''gpt'',
                   Rest = ''{id:upstream-1}''\<rparr>\<rparr>"
        "\<lparr>ID = ''chatcmpl-3fa900c4'', Created = 1730000000, Model = ''gpt'',
          Rest = ''{id:upstream-1}''\<rparr>"]
  by (simp add: openai_protocol_config_def example_config_def example_instance_def
      example_request_def example_provider_def example_response_def example_translator_def
      example_uuid_def GetInstanceByPath_def HasPrefix_def ProtocolHandler_HandleRequest_def
      handleOpenAIProtocol_def build_provider_request_def marshal_request_def
      parse_provider_response_def new_request_id_def UUID_String_def hextable_def
      reply_json_def Render_def bodyAllowedForStatus_def Let_def)

section \<open>Loading the configuration\<close>

lemma Expand_plain_prefix:
  "CHR ''$'' \<notin> set pre \<Longrightarrow> Expand mapping (pre @ s) = pre @ Expand mapping s"
  by (induction pre) auto

lemma getShellName_braces:
  assumes "name \<noteq> []" and "CHR ''}'' \<notin> set name"
  shows "getShellName (CHR ''{'' # name @ CHR ''}'' # post) = (name, length name + 2)"
proof -
  let ?t = "name @ CHR ''}'' # post"
  let ?special = "2 < length (CHR ''{'' # ?t) \<and> isShellSpecialVar ((CHR ''{'' # ?t) ! 1) \<and>
                  (CHR ''{'' # ?t) ! 2 = CHR ''}''"
  have tw: "takeWhile (\<lambda>x. x \<noteq> CHR ''}'') ?t = name"
    using assms(2) by (auto simp add: takeWhile_tail)
  have scan: "(let k = length (takeWhile (\<lambda>x. x \<noteq> CHR ''}'') ?t) in
                if k = length ?t then ([], 1) else if k = 0 then ([], 2) else (take k ?t, k + 2))
              = (name, length name + 2)"
    unfolding tw Let_def using assms(1) by simp
  have eq: "getShellName (CHR ''{'' # ?t) =
              (if ?special then ([(CHR ''{'' # ?t) ! 1], 3) else (name, length name + 2))"
    unfolding getShellName_def scan [symmetric] by simp
  show ?thesis
  proof (cases ?special)
    case True
    then have two: "?t ! 1 = CHR ''}''" by simp
    have "length name = 1"
    proof (rule ccontr)
      assume "length name \<noteq> 1"
      with assms(1) have "1 < length name" by (cases name) auto
      then have "?t ! 1 = name ! 1" "name ! 1 \<in> set name" by (simp_all add: nth_append)
      with two assms(2) show False by simp
    qed
    then obtain c where "name = [c]" by (cases name) auto
    with True eq show ?thesis by simp
  next
    case False
    with eq show ?thesis by (simp only: if_False)
  qed
qed

lemma Expand_reference:
  assumes "name \<noteq> []" and "CHR ''}'' \<notin> set name"
  shows "Expand mapping (''${'' @ name @ ''}'' @ post) = mapping name @ Expand mapping post"
  using getShellName_braces [OF assms, of post] assms(1) by simp

text \<open>
  The default form of the configuration examples is read as a reference to a variable
  whose name is the whole text between the braces; with no such variable the reference
  expands to the empty string and the default is lost.
\<close>

lemma ExpandEnv_default_form:
  "ExpandEnv Map.empty ''base_url: ${OPENAI_BASE_URL:-https://api.openai.com/v1}'' = ''base_url: ''"
  by (simp add: ExpandEnv_def Getenv_def getShellName_def isShellSpecialVar_def Let_def)

text \<open>
  Claim C4, as the code has it. A reference \<open>${NAME}\<close> in the configuration text is
  replaced, before parsing, by the value of \<open>NAME\<close> in the process environment, and by
  the empty string when \<open>NAME\<close> is not set. Loading then succeeds or fails exactly as the
  decoding of the expanded text does: nothing checks for unresolved references.
\<close>

theorem LoadConfig_expands_then_parses:
  assumes "readFile path = Inr (pre @ ''${'' @ name @ ''}'' @ post)"
    and "name \<noteq> []" and "CHR ''}'' \<notin> set name" and "CHR ''$'' \<notin> set pre"
  shows "LoadConfig readFile env unmarshal path =
           (case unmarshal (pre @ Getenv env name @ ExpandEnv env post) of
              Inl err \<Rightarrow> Inl (''failed to parse config: '' @ err)
            | Inr config \<Rightarrow> Inr config) \<and>
         (env name = None \<longrightarrow> Getenv env name = [])"
  using assms Expand_reference [OF assms(2,3), of "Getenv env" post]
  by (simp add: LoadConfig_def ExpandEnv_def Expand_plain_prefix Getenv_def)

text \<open>
  The theorem at a text that refers to \<open>PROVIDER_KIND\<close>, set to \<open>openai\<close>: the decoder
  receives the text with the value in place.
\<close>

theorem LoadConfig_expands_then_parses_witness:
  "LoadConfig (\<lambda>p. Inr ''instances: {a: {type: ${PROVIDER_KIND}}}'')
     [''PROVIDER_KIND'' \<mapsto> ''openai'']
     (accept_text ''instances: {a: {type: openai}}''
        (example_config [(''a'', example_instance ''openai'' [] [] [])]))
     ''provider-instances.yaml''
   = Inr (example_config [(''a'', example_instance ''openai'' [] [] [])])"
  using LoadConfig_expands_then_parses
    [of "\<lambda>p. Inr ''instances: {a: {type: ${PROVIDER_KIND}}}''" "''provider-instances.yaml''"
        "''instances: {a: {type: ''" "''PROVIDER_KIND''" "''}}''"
        "[''PROVIDER_KIND'' \<mapsto> ''openai'']"
        "accept_text ''instances: {a: {type: openai}}''
           (example_config [(''a'', example_instance ''openai'' [] [] [])])"]
  by (simp add: ExpandEnv_def Getenv_def accept_text_def)

text \<open>
  Claim C4 as stated fails. The text refers to \<open>PROVIDER_KIND\<close> and the environment is
  empty, so the reference cannot be resolved; the decoder receives the text with the
  reference emptied, and loading succeeds with the configuration decoded from it.
\<close>

theorem LoadConfig_unresolved_reference_counterexample:
  "LoadConfig (\<lambda>p. Inr ''instances: {a: {type: ${PROVIDER_KIND}}}'') Map.empty
     (accept_text ''instances: {a: {type: }}'' (example_config [(''a'', example_instance [] [] [] [])]))
     ''provider-instances.yaml''
   = Inr (example_config [(''a'', example_instance [] [] [] [])])"
  by (simp add: LoadConfig_def ExpandEnv_def Getenv_def getShellName_def isShellSpecialVar_def
      accept_text_def Let_def)

text \<open>
  Claim C5, as the code has it. \<open>LoadConfig\<close> validates nothing: it returns a
  configuration exactly when the file can be read and the expanded text decodes to that
  configuration, whatever invariants the configuration breaks, and it returns an error
  exactly when the file cannot be read or the expanded text cannot be decoded, and then
  that one error.
\<close>

theorem LoadConfig_returns_decoded_config:
  "(LoadConfig readFile env unmarshal path = Inr c \<longleftrightarrow>
      (\<exists>data. readFile path = Inr data \<and> unmarshal (ExpandEnv env data) = Inr c)) \<and>
   (LoadConfig readFile env unmarshal path = Inl e \<longleftrightarrow>
      (\<exists>err. readFile path = Inl err \<and> e = ''failed to read config file: '' @ err) \<or>
      (\<exists>data err. readFile path = Inr data \<and> unmarshal (ExpandEnv env data) = Inl err \<and>
         e = ''failed to parse config: '' @ err))"
  by (auto simp: LoadConfig_def split: sum.splits)

theorem LoadConfig_returns_decoded_config_witness:
  "LoadConfig (\<lambda>p. Inr ''instances: {}'') Map.empty
     (accept_text ''instances: {}'' (example_config [])) ''provider-instances.yaml''
   = Inr (example_config []) \<and>
   LoadConfig (\<lambda>p. Inl ''no such file'') Map.empty
     (accept_text ''instances: {}'' (example_config [])) ''provider-instances.yaml''
   = Inl ''failed to read config file: no such file''"
  using LoadConfig_returns_decoded_config
    [of "\<lambda>p. Inr ''instances: {}''" Map.empty "accept_text ''instances: {}'' (example_config [])"
        "''provider-instances.yaml''" "example_config []"]
    LoadConfig_returns_decoded_config
    [of "\<lambda>p. Inl ''no such file''" Map.empty "accept_text ''instances: {}'' (example_config [])"
        "''provider-instances.yaml''" _ "''failed to read config file: no such file''"]
  by (simp add: ExpandEnv_def accept_text_def)

text \<open>
  Claim C5 as stated fails: a decoded configuration that breaks the invariants on the
  translation pair in both modes, on the provider kind and on the ownership of a prefix
  is loaded without an error.
\<close>

theorem LoadConfig_accepts_violations_counterexample:
  "LoadConfig (\<lambda>p. Inr violating_yaml) Map.empty
     (accept_text violating_yaml violating_config) ''provider-instances.yaml''
   = Inr violating_config \<and>
   \<not> spec_invariants violating_config"
  by (simp add: LoadConfig_def ExpandEnv_def accept_text_def violating_yaml_def spec_invariants_def
      violating_config_def example_config_def example_instance_def spec_instance_invariants_def
      translation_pair_nonempty_def known_provider_kinds_def)

end
